theory Spec2Isabelle
  imports Complex_Main
begin

section \<open>The colour game of \<open>src/App.tsx\<close>: data model\<close>

text \<open>
  The component keeps one \<open>GameState\<close> object in a React state cell and one interval
  handle in \<open>timerRef\<close>. JavaScript numbers that the program only ever fills with integers
  (levels, scores, seconds, grid sizes, cell indices, HSL components) are modelled as
  \<open>int\<close>, so \<open>Math.floor (level / 4)\<close> is \<open>level div 4\<close> (HOL's \<open>div\<close> on \<open>int\<close>
  rounds towards minus infinity, as \<open>Math.floor\<close> does).

  \<open>Math.random ()\<close> returns a double in \<open>[0, 1)\<close>. Each call is modelled as a real number
  taken from an explicit record of draws, one field per call of \<open>generateColors\<close>, in the
  order of the calls; \<open>validDraws\<close> states the range. The rounding of the double product
  \<open>Math.random () * n\<close> is not modelled: for the factors used here (360, 40 and the
  squares 4 to 64) the rounded product of a double below 1 stays below \<open>n\<close>, so the floor
  is the same integer range as for reals.
\<close>

record Color =
  h :: int
  s :: int
  l :: int

record Random5 =
  rnd_h :: real
  rnd_s :: real
  rnd_l :: real
  rnd_isLighter :: real
  rnd_diffIndex :: real

definition validDraws :: "Random5 \<Rightarrow> bool" where
  "validDraws rnd \<longleftrightarrow>
     0 \<le> rnd_h rnd \<and> rnd_h rnd < 1 \<and>
     0 \<le> rnd_s rnd \<and> rnd_s rnd < 1 \<and>
     0 \<le> rnd_l rnd \<and> rnd_l rnd < 1 \<and>
     0 \<le> rnd_isLighter rnd \<and> rnd_isLighter rnd < 1 \<and>
     0 \<le> rnd_diffIndex rnd \<and> rnd_diffIndex rnd < 1"

text \<open>The object returned by \<open>generateColors\<close>.\<close>

record Round =
  gen_baseColor :: Color
  gen_diffColor :: Color
  gen_diffIndex :: int
  gen_gridSize :: int
  gen_delta :: int

subsection \<open>Constants\<close>

definition INITIAL_TIME :: int where
  "INITIAL_TIME = 60"

definition MIN_DELTA :: int where
  "MIN_DELTA = 1"

subsection \<open>Utils\<close>

text \<open>
  Template literals print an integer-valued number in decimal, with a leading minus sign
  when it is negative.
\<close>

fun natToString :: "nat \<Rightarrow> string" where
  "natToString n =
     (if n < 10 then [''0123456789'' ! n]
      else natToString (n div 10) @ [''0123456789'' ! (n mod 10)])"

declare natToString.simps [simp del]

definition numberToString :: "int \<Rightarrow> string" where
  "numberToString n =
     (if n < 0 then ''-'' @ natToString (nat (- n)) else natToString (nat n))"

definition colorToCSS :: "Color \<Rightarrow> string" where
  "colorToCSS c =
     ''hsl('' @ numberToString (h c) @ '', '' @ numberToString (s c) @ ''%, ''
       @ numberToString (l c) @ ''%)''"

definition generateColors :: "Random5 \<Rightarrow> int \<Rightarrow> Round" where
  "generateColors rnd level =
     (let h = \<lfloor>rnd_h rnd * 360\<rfloor>;
          s = \<lfloor>rnd_s rnd * 40\<rfloor> + 40;
          l = \<lfloor>rnd_l rnd * 40\<rfloor> + 30;
          delta = max MIN_DELTA (15 - level div 4);
          isLighter = (rnd_isLighter rnd > 0.5);
          diffL = (if isLighter then l + delta else l - delta);
          baseColor = \<lparr>h = h, s = s, l = l\<rparr>;
          diffColor = \<lparr>h = h, s = s, l = diffL\<rparr>;
          gridSize = 2;
          gridSize = (if level > 2 then 3 else gridSize);
          gridSize = (if level > 6 then 4 else gridSize);
          gridSize = (if level > 12 then 5 else gridSize);
          gridSize = (if level > 20 then 6 else gridSize);
          gridSize = (if level > 30 then 7 else gridSize);
          gridSize = (if level > 45 then 8 else gridSize);
          diffIndex = \<lfloor>rnd_diffIndex rnd * real_of_int (gridSize * gridSize)\<rfloor>
      in \<lparr>gen_baseColor = baseColor, gen_diffColor = diffColor, gen_diffIndex = diffIndex,
          gen_gridSize = gridSize, gen_delta = delta\<rparr>)"

text \<open>
  The breakpoint table of the specification, read row by row; it has no row for a level
  below 1.
\<close>

definition gridSizeTable :: "int \<Rightarrow> int option" where
  "gridSizeTable L =
     (if 1 \<le> L \<and> L \<le> 2 then Some 2
      else if 3 \<le> L \<and> L \<le> 6 then Some 3
      else if 7 \<le> L \<and> L \<le> 12 then Some 4
      else if 13 \<le> L \<and> L \<le> 20 then Some 5
      else if 21 \<le> L \<and> L \<le> 30 then Some 6
      else if 31 \<le> L \<and> L \<le> 45 then Some 7
      else if 46 \<le> L then Some 8
      else None)"

subsection \<open>Types of the session\<close>

datatype Status = Idle | Playing | Gameover

record DiffInfo =
  base :: string
  diff :: string
  delta :: int

record GameState =
  status :: Status
  score :: int
  timeLeft :: int
  level :: int
  gridSize :: int
  baseColor :: Color
  diffColor :: Color
  diffIndex :: int
  lastDiffInfo :: "DiffInfo option"

subsection \<open>The component's functions\<close>

text \<open>The argument of \<open>useState\<close>; the optional field \<open>lastDiffInfo\<close> is absent.\<close>

definition initialState :: GameState where
  "initialState =
     \<lparr>status = Idle, score = 0, timeLeft = INITIAL_TIME, level = 1, gridSize = 2,
      baseColor = \<lparr>h = 0, s = 0, l = 0\<rparr>, diffColor = \<lparr>h = 0, s = 0, l = 0\<rparr>,
      diffIndex = 0, lastDiffInfo = None\<rparr>"

text \<open>
  \<open>startGame\<close> passes a whole new object to \<open>setState\<close>: nothing of the previous state
  survives, and \<open>lastDiffInfo\<close> is absent from the object.
\<close>

definition startGame :: "Random5 \<Rightarrow> GameState" where
  "startGame rnd =
     (let r = generateColors rnd 1
      in \<lparr>status = Playing, score = 0, timeLeft = INITIAL_TIME, level = 1,
          gridSize = gen_gridSize r, baseColor = gen_baseColor r,
          diffColor = gen_diffColor r, diffIndex = gen_diffIndex r,
          lastDiffInfo = None\<rparr>)"

text \<open>
  \<open>nextLevel\<close> draws the round for \<open>currentLevel + 1\<close> and updates the previous state
  \<open>prev\<close>; the \<open>delta\<close> it stores in \<open>lastDiffInfo\<close> is the one destructured from that
  call of \<open>generateColors\<close>.
\<close>

definition nextLevel :: "Random5 \<Rightarrow> int \<Rightarrow> int \<Rightarrow> GameState \<Rightarrow> GameState" where
  "nextLevel rnd currentLevel currentScore prev =
     (let nextLvl = currentLevel + 1;
          r = generateColors rnd nextLvl
      in prev\<lparr>level := nextLvl,
              score := currentScore + 1,
              gridSize := gen_gridSize r,
              baseColor := gen_baseColor r,
              diffColor := gen_diffColor r,
              diffIndex := gen_diffIndex r,
              lastDiffInfo := Some \<lparr>base = colorToCSS (baseColor prev),
                                     diff = colorToCSS (diffColor prev),
                                     delta = gen_delta r\<rparr>\<rparr>)"

text \<open>
  \<open>handleBlockClick\<close> tests and reads \<open>state\<close>, the state of the render that created the
  handler, and its updaters receive \<open>prev\<close>, the state stored in the cell when the click
  is handled. The two are different arguments here: they differ when the handler is older
  than the stored state. The result is the state stored after the click (\<open>prev\<close> itself
  when the handler returns without an update). The sound played on a click is not part of
  the state.
\<close>

definition handleBlockClick :: "Random5 \<Rightarrow> int \<Rightarrow> GameState \<Rightarrow> GameState \<Rightarrow> GameState" where
  "handleBlockClick rnd index state prev =
     (if status state \<noteq> Playing then prev
      else if index = diffIndex state then nextLevel rnd (level state) (score state) prev
      else prev\<lparr>timeLeft := max 0 (timeLeft prev - 3)\<rparr>)"

text \<open>The updater that the interval callback passes to \<open>setState\<close>.\<close>

definition intervalUpdate :: "GameState \<Rightarrow> GameState" where
  "intervalUpdate prev =
     (if timeLeft prev \<le> 1 then prev\<lparr>timeLeft := 0, status := Gameover\<rparr>
      else prev\<lparr>timeLeft := timeLeft prev - 1\<rparr>)"

text \<open>
  The timer effect depends on \<open>state.status\<close> only. When it runs, its cleanup has cleared
  the old interval, and its body schedules a new one exactly under this condition.
\<close>

definition timerEffect :: "GameState \<Rightarrow> bool" where
  "timerEffect st \<longleftrightarrow> status st = Playing \<and> timeLeft st > 0"

text \<open>
  The component: the state cell, whether the interval stored in \<open>timerRef\<close> is still
  scheduled, and the grid on screen. At most one interval is scheduled at a time, because
  every \<open>setInterval\<close> of the timer effect is preceded by the effect's cleanup, which
  clears the previous one.

  Every render creates a new \<open>handleBlockClick\<close>, closed over the state of that render, and
  the cells of the grid call the one of the render that drew them. \<open>grid\<close> is that state:
  \<open>Some st\<close> when a grid is on screen whose cells were drawn by a render with state \<open>st\<close>,
  \<open>None\<close> when no grid is on screen. The grid is drawn only by a render with status
  \<open>playing\<close>; when the status leaves \<open>playing\<close>, \<open>AnimatePresence\<close> keeps the grid
  of the last playing render on screen, cells and handlers as they were, until its exit
  animation is over.
\<close>

record App =
  state :: GameState
  timerRunning :: bool
  grid :: "GameState option"

text \<open>
  Storing a new state re-renders the component; the timer effect runs again only if the
  status differs from the one of the previous render. A render with status \<open>playing\<close>
  draws the grid, with handlers closed over the new state; any other render draws no grid
  and leaves on screen the grid that was there.
\<close>

definition render :: "App \<Rightarrow> GameState \<Rightarrow> App" where
  "render app st =
     \<lparr>state = st,
      timerRunning = (if status st = status (state app) then timerRunning app
                      else timerEffect st),
      grid = (if status st = Playing then Some st else grid app)\<rparr>"

text \<open>
  The component after its first render: the effect finds status \<open>idle\<close>, and no grid is
  drawn.
\<close>

definition initialApp :: App where
  "initialApp = \<lparr>state = initialState, timerRunning = False, grid = None\<rparr>"

subsection \<open>The commands of the session\<close>

definition start :: "Random5 \<Rightarrow> App \<Rightarrow> App" where
  "start rnd app = render app (startGame rnd)"

text \<open>
  A selection calls the handler of the grid on screen. With no grid on screen there is no
  cell to click; the command then stands for a call of the current render's handler.
\<close>

definition clickHandlerState :: "App \<Rightarrow> GameState" where
  "clickHandlerState app = (case grid app of Some st \<Rightarrow> st | None \<Rightarrow> state app)"

definition select :: "Random5 \<Rightarrow> int \<Rightarrow> App \<Rightarrow> App" where
  "select rnd index app =
     render app (handleBlockClick rnd index (clickHandlerState app) (state app))"

text \<open>
  A tick is one firing of the interval, which happens only while the interval is
  scheduled. The updater clears the interval itself when it ends the game.
\<close>

definition tick :: "App \<Rightarrow> App" where
  "tick app =
     (if timerRunning app
      then render (app\<lparr>timerRunning := \<not> timeLeft (state app) \<le> 1\<rparr>)
             (intervalUpdate (state app))
      else app)"

text \<open>
  The end of the grid's exit animation: the grid leaves the screen. While the status is
  \<open>playing\<close> the grid is not leaving, and nothing happens.
\<close>

definition exitComplete :: "App \<Rightarrow> App" where
  "exitComplete app = (if status (state app) = Playing then app else app\<lparr>grid := None\<rparr>)"

datatype Event = Start Random5 | Select Random5 int | Tick | ExitComplete

fun step :: "App \<Rightarrow> Event \<Rightarrow> App" where
  "step app (Start rnd) = start rnd app"
| "step app (Select rnd index) = select rnd index app"
| "step app Tick = tick app"
| "step app ExitComplete = exitComplete app"

fun isStart :: "Event \<Rightarrow> bool" where
  "isStart (Start rnd) = True"
| "isStart (Select rnd index) = False"
| "isStart Tick = False"
| "isStart ExitComplete = False"

text \<open>The states the component can be in: any sequence of events after the first render.\<close>

inductive reachable :: "App \<Rightarrow> bool" where
  reachable_init: "reachable initialApp"
| reachable_step: "reachable app \<Longrightarrow> reachable (step app e)"

text \<open>A fixed series of draws for the examples: hue 180, saturation 60, lightness 50, lighter.\<close>

definition draws0 :: Random5 where
  "draws0 = \<lparr>rnd_h = 1/2, rnd_s = 1/2, rnd_l = 1/2, rnd_isLighter = 3/4, rnd_diffIndex = 1/2\<rparr>"

text \<open>The first round of a session started with these draws, with \<open>t\<close> seconds left.\<close>

definition playing0 :: "int \<Rightarrow> GameState" where
  "playing0 t =
     \<lparr>status = Playing, score = 0, timeLeft = t, level = 1, gridSize = 2,
      baseColor = \<lparr>h = 180, s = 60, l = 50\<rparr>, diffColor = \<lparr>h = 180, s = 60, l = 65\<rparr>,
      diffIndex = 2, lastDiffInfo = None\<rparr>"

section \<open>The round generator\<close>

text \<open>
  C1. For every level \<open>L \<ge> 1\<close> and every random draw, the generated round's delta is
  \<open>max 1 (15 - \<lfloor>L / 4\<rfloor>)\<close>, and it is at least 1, so it never reaches zero.
\<close>

theorem generateColors_delta:
  "1 \<le> L \<Longrightarrow>
     gen_delta (generateColors rnd L) = max 1 (15 - L div 4) \<and>
     1 \<le> gen_delta (generateColors rnd L)"
  by (simp add: generateColors_def MIN_DELTA_def Let_def)

theorem generateColors_delta_witness:
  "(1::int) \<le> 57 \<and>
   gen_delta (generateColors \<lparr>rnd_h = 0, rnd_s = 0, rnd_l = 0, rnd_isLighter = 0,
     rnd_diffIndex = 0\<rparr> 57) = 1 \<and>
   gen_delta (generateColors \<lparr>rnd_h = 0, rnd_s = 0, rnd_l = 0, rnd_isLighter = 0,
     rnd_diffIndex = 0\<rparr> 57) = max 1 (15 - 57 div 4)"
  using generateColors_delta [of 57 "\<lparr>rnd_h = 0, rnd_s = 0, rnd_l = 0, rnd_isLighter = 0,
     rnd_diffIndex = 0\<rparr>"]
  by simp

text \<open>
  C2. For every level \<open>L \<ge> 1\<close> the generated grid size is the one of the breakpoint
  table: 2 for levels 1-2, 3 for 3-6, 4 for 7-12, 5 for 13-20, 6 for 21-30, 7 for 31-45
  and 8 from 46 on; level 48 gives 8.
\<close>

theorem generateColors_gridSize:
  "1 \<le> L \<Longrightarrow>
     gridSizeTable L = Some (gen_gridSize (generateColors rnd L)) \<and>
     gen_gridSize (generateColors rnd 48) = 8"
  by (simp add: generateColors_def gridSizeTable_def Let_def)

theorem generateColors_gridSize_witness:
  "(1::int) \<le> 45 \<and> gridSizeTable 45 = Some 7 \<and> gridSizeTable 46 = Some 8 \<and>
   gen_gridSize (generateColors \<lparr>rnd_h = 0, rnd_s = 0, rnd_l = 0, rnd_isLighter = 0,
     rnd_diffIndex = 0\<rparr> 45) = 7 \<and>
   gen_gridSize (generateColors \<lparr>rnd_h = 0, rnd_s = 0, rnd_l = 0, rnd_isLighter = 0,
     rnd_diffIndex = 0\<rparr> 48) = 8"
  using generateColors_gridSize [of 45 "\<lparr>rnd_h = 0, rnd_s = 0, rnd_l = 0, rnd_isLighter = 0,
     rnd_diffIndex = 0\<rparr>"]
  by (simp add: gridSizeTable_def)

section \<open>Auxiliary facts\<close>

subsection \<open>The cell index drawn for a round\<close>

text \<open>
  For a draw \<open>r\<close> in \<open>[0, 1)\<close> and a positive integer \<open>n\<close>, \<open>\<lfloor>r * n\<rfloor>\<close> is one of
  \<open>0, \<dots>, n - 1\<close>.
\<close>

lemma floor_draw_range:
  assumes "0 \<le> r" "r < 1" "0 < n"
  shows "0 \<le> \<lfloor>r * real_of_int n\<rfloor>" and "\<lfloor>r * real_of_int n\<rfloor> < n"
proof -
  from assms show "0 \<le> \<lfloor>r * real_of_int n\<rfloor>" by simp
  from assms have "r * real_of_int n < 1 * real_of_int n"
    by (intro mult_strict_right_mono) simp_all
  then show "\<lfloor>r * real_of_int n\<rfloor> < n" by (simp add: floor_less_iff)
qed

lemma gridSize_cases:
  "gen_gridSize (generateColors rnd L) \<in> {2, 3, 4, 5, 6, 7, 8}"
  by (simp add: generateColors_def Let_def)

lemma generateColors_diffIndex:
  assumes "validDraws rnd"
  shows "0 \<le> gen_diffIndex (generateColors rnd L)"
    and "gen_diffIndex (generateColors rnd L)
           < gen_gridSize (generateColors rnd L) * gen_gridSize (generateColors rnd L)"
proof -
  let ?g = "gen_gridSize (generateColors rnd L)"
  have idx: "gen_diffIndex (generateColors rnd L) = \<lfloor>rnd_diffIndex rnd * real_of_int (?g * ?g)\<rfloor>"
    by (simp add: generateColors_def Let_def)
  have pos: "0 < ?g * ?g"
    using gridSize_cases [of rnd L] by auto
  from assms have r: "0 \<le> rnd_diffIndex rnd" "rnd_diffIndex rnd < 1"
    by (simp_all add: validDraws_def)
  show "0 \<le> gen_diffIndex (generateColors rnd L)"
    unfolding idx using floor_draw_range(1) [OF r pos] .
  show "gen_diffIndex (generateColors rnd L) < ?g * ?g"
    unfolding idx using floor_draw_range(2) [OF r pos] .
qed

subsection \<open>Reachable states\<close>

text \<open>
  The interval is scheduled exactly while the session is playing, the time left is never
  negative, and while the session is playing the grid on screen is the one of the current
  render: its handlers read the stored state.
\<close>

lemma reachable_invariant:
  assumes "reachable app"
  shows "timerRunning app = (status (state app) = Playing) \<and> 0 \<le> timeLeft (state app) \<and>
         (status (state app) = Playing \<longrightarrow> grid app = Some (state app))"
  using assms
proof (induction rule: reachable.induct)
  case reachable_init
  show ?case by (simp add: initialApp_def initialState_def INITIAL_TIME_def)
next
  case (reachable_step app e)
  show ?case
  proof (cases e)
    case (Start rnd)
    with reachable_step.IH show ?thesis
      by (simp add: start_def render_def startGame_def timerEffect_def INITIAL_TIME_def Let_def)
  next
    case (Select rnd index)
    with reachable_step.IH show ?thesis
      by (simp add: select_def render_def handleBlockClick_def nextLevel_def Let_def)
  next
    case Tick
    with reachable_step.IH show ?thesis
      by (simp add: tick_def render_def intervalUpdate_def timerEffect_def)
  next
    case ExitComplete
    with reachable_step.IH show ?thesis
      by (simp add: exitComplete_def)
  qed
qed

lemma reachable_playing:
  assumes "reachable app" and "status (state app) = Playing"
  shows "timerRunning app" and "grid app = Some (state app)"
  using reachable_invariant [OF assms(1)] assms(2) by simp_all

subsection \<open>Single ticks, runs of ticks and starts\<close>

lemma tick_running:
  "timerRunning app \<Longrightarrow> status (state app) = Playing \<Longrightarrow> 1 < timeLeft (state app) \<Longrightarrow>
     tick app =
       app\<lparr>state := (state app)\<lparr>timeLeft := timeLeft (state app) - 1\<rparr>,
           grid := Some ((state app)\<lparr>timeLeft := timeLeft (state app) - 1\<rparr>)\<rparr>"
  by (simp add: tick_def render_def intervalUpdate_def)

lemma tick_last:
  "timerRunning app \<Longrightarrow> status (state app) = Playing \<Longrightarrow> timeLeft (state app) \<le> 1 \<Longrightarrow>
     tick app =
       \<lparr>state = (state app)\<lparr>timeLeft := 0, status := Gameover\<rparr>, timerRunning = False,
        grid = grid app\<rparr>"
  by (simp add: tick_def render_def intervalUpdate_def timerEffect_def)

lemma tick_funpow:
  "timerRunning app \<Longrightarrow> status (state app) = Playing \<Longrightarrow> grid app = Some (state app) \<Longrightarrow>
   int n < timeLeft (state app) \<Longrightarrow>
     (tick ^^ n) app =
       app\<lparr>state := (state app)\<lparr>timeLeft := timeLeft (state app) - int n\<rparr>,
           grid := Some ((state app)\<lparr>timeLeft := timeLeft (state app) - int n\<rparr>)\<rparr>"
proof (induction n)
  case 0
  then show ?case by simp
next
  case (Suc n)
  let ?s = "(state app)\<lparr>timeLeft := timeLeft (state app) - int n\<rparr>"
  let ?a = "app\<lparr>state := ?s, grid := Some ?s\<rparr>"
  from Suc have eq: "(tick ^^ n) app = ?a"
    by simp
  from Suc.prems have "tick ?a =
      ?a\<lparr>state := (state ?a)\<lparr>timeLeft := timeLeft (state ?a) - 1\<rparr>,
         grid := Some ((state ?a)\<lparr>timeLeft := timeLeft (state ?a) - 1\<rparr>)\<rparr>"
    by (intro tick_running) simp_all
  with eq show ?case
    by (simp add: algebra_simps)
qed

lemma start_app:
  "start rnd app =
     \<lparr>state = startGame rnd,
      timerRunning = (if status (state app) = Playing then timerRunning app else True),
      grid = Some (startGame rnd)\<rparr>"
  by (auto simp add: start_def render_def startGame_def timerEffect_def INITIAL_TIME_def Let_def)

lemma reachable_start: "reachable app \<Longrightarrow> reachable (start rnd app)"
  using reachable_step [of app "Start rnd"] by simp

lemma reachable_select: "reachable app \<Longrightarrow> reachable (select rnd index app)"
  using reachable_step [of app "Select rnd index"] by simp

lemma reachable_tick: "reachable app \<Longrightarrow> reachable (tick app)"
  using reachable_step [of app Tick] by simp

lemma reachable_ticks: "reachable app \<Longrightarrow> reachable ((tick ^^ n) app)"
  by (induction n) (simp_all add: reachable_tick)

lemma reachable_exitComplete: "reachable app \<Longrightarrow> reachable (exitComplete app)"
  using reachable_step [of app ExitComplete] by simp

subsection \<open>Selections while playing\<close>

text \<open>
  While the session is playing and the grid on screen is the one of the current render,
  the handler reads the stored state; the status stays, so the timer effect does not run,
  and the grid is drawn again from the new state.
\<close>

lemma select_playing:
  assumes "status (state app) = Playing" and "grid app = Some (state app)"
  shows "select rnd index app =
           app\<lparr>state := handleBlockClick rnd index (state app) (state app),
               grid := Some (handleBlockClick rnd index (state app) (state app))\<rparr>"
  using assms
  by (simp add: select_def clickHandlerState_def render_def handleBlockClick_def
      nextLevel_def Let_def)

lemma select_shown:
  assumes "status st = Playing"
  shows "select rnd index \<lparr>state = st, timerRunning = b, grid = Some st\<rparr> =
           \<lparr>state = handleBlockClick rnd index st st, timerRunning = b,
            grid = Some (handleBlockClick rnd index st st)\<rparr>"
  using assms by (subst select_playing) simp_all

subsection \<open>The example session\<close>

lemma validDraws_draws0: "validDraws draws0"
  by (simp add: validDraws_def draws0_def)

lemma generateColors_draws0_1:
  "generateColors draws0 1 =
     \<lparr>gen_baseColor = \<lparr>h = 180, s = 60, l = 50\<rparr>, gen_diffColor = \<lparr>h = 180, s = 60, l = 65\<rparr>,
      gen_diffIndex = 2, gen_gridSize = 2, gen_delta = 15\<rparr>"
  by (simp add: generateColors_def draws0_def MIN_DELTA_def Let_def)

lemma playing0_fields:
  "status (playing0 t) = Playing" "score (playing0 t) = 0" "timeLeft (playing0 t) = t"
  "level (playing0 t) = 1" "gridSize (playing0 t) = 2" "diffIndex (playing0 t) = 2"
  "baseColor (playing0 t) = \<lparr>h = 180, s = 60, l = 50\<rparr>"
  "diffColor (playing0 t) = \<lparr>h = 180, s = 60, l = 65\<rparr>"
  "lastDiffInfo (playing0 t) = None"
  "(playing0 t)\<lparr>timeLeft := u\<rparr> = playing0 u"
  by (simp_all add: playing0_def)

lemma started0:
  "start draws0 initialApp =
     \<lparr>state = playing0 60, timerRunning = True, grid = Some (playing0 60)\<rparr>"
  by (simp add: start_app initialApp_def initialState_def startGame_def
      generateColors_draws0_1 INITIAL_TIME_def playing0_def)

lemma ticks0:
  "n < 60 \<Longrightarrow>
   (tick ^^ n) \<lparr>state = playing0 60, timerRunning = True, grid = Some (playing0 60)\<rparr> =
     \<lparr>state = playing0 (60 - int n), timerRunning = True,
      grid = Some (playing0 (60 - int n))\<rparr>"
  by (subst tick_funpow) (simp_all add: playing0_fields)

text \<open>
  After the 60th tick the session has ended and the grid of the last playing render, with
  1 second left, is still on screen.
\<close>

lemma ended0:
  "(tick ^^ 60) \<lparr>state = playing0 60, timerRunning = True, grid = Some (playing0 60)\<rparr> =
     \<lparr>state = (playing0 0)\<lparr>status := Gameover\<rparr>, timerRunning = False,
      grid = Some (playing0 1)\<rparr>"
proof -
  have "(60::nat) = Suc 59"
    by simp
  then show ?thesis
    by (simp only: funpow.simps o_apply) (simp add: ticks0 tick_last playing0_fields)
qed

section \<open>The countdown\<close>

text \<open>
  C3. While playing, a tick with at least 2 seconds left takes exactly one second off and
  keeps the session playing; a tick with at most 1 second left sets the time to 0 and ends
  the session, so a tick never makes the time negative. After a start, 59 ticks leave 1
  second with the session still playing, and the 60th tick leaves 0 and ends it.
\<close>

theorem tick_countdown:
  assumes "reachable app"
  shows "(status (state app) = Playing \<and> 2 \<le> timeLeft (state app) \<longrightarrow>
            state (tick app) = (state app)\<lparr>timeLeft := timeLeft (state app) - 1\<rparr>) \<and>
         (status (state app) = Playing \<and> timeLeft (state app) \<le> 1 \<longrightarrow>
            state (tick app) = (state app)\<lparr>timeLeft := 0, status := Gameover\<rparr>) \<and>
         0 \<le> timeLeft (state (tick app)) \<and>
         timeLeft (state (start rnd app)) = 60 \<and>
         timeLeft (state ((tick ^^ 59) (start rnd app))) = 1 \<and>
         status (state ((tick ^^ 59) (start rnd app))) = Playing \<and>
         timeLeft (state ((tick ^^ 60) (start rnd app))) = 0 \<and>
         status (state ((tick ^^ 60) (start rnd app))) = Gameover"
proof -
  from reachable_invariant [OF assms]
  have inv: "timerRunning app = (status (state app) = Playing)"
    by simp
  have dec: "status (state app) = Playing \<and> 2 \<le> timeLeft (state app) \<longrightarrow>
      state (tick app) = (state app)\<lparr>timeLeft := timeLeft (state app) - 1\<rparr>"
    using inv by (simp add: tick_running)
  have fin: "status (state app) = Playing \<and> timeLeft (state app) \<le> 1 \<longrightarrow>
      state (tick app) = (state app)\<lparr>timeLeft := 0, status := Gameover\<rparr>"
    using inv by (simp add: tick_last)
  have nonneg: "0 \<le> timeLeft (state (tick app))"
    using reachable_invariant [OF reachable_tick [OF assms]] by simp
  let ?a = "start rnd app"
  have run: "timerRunning ?a" and play: "status (state ?a) = Playing"
    and shown: "grid ?a = Some (state ?a)" and t60: "timeLeft (state ?a) = 60"
    using inv by (simp_all add: start_app startGame_def INITIAL_TIME_def Let_def)
  have a59: "(tick ^^ 59) ?a =
      ?a\<lparr>state := (state ?a)\<lparr>timeLeft := 1\<rparr>, grid := Some ((state ?a)\<lparr>timeLeft := 1\<rparr>)\<rparr>"
    using tick_funpow [OF run play shown, of 59] t60 by simp
  have "(tick ^^ 60) ?a = tick ((tick ^^ 59) ?a)"
    by (simp add: numeral_eq_Suc)
  also have "\<dots> = \<lparr>state = (state ?a)\<lparr>timeLeft := 0, status := Gameover\<rparr>,
      timerRunning = False, grid = Some ((state ?a)\<lparr>timeLeft := 1\<rparr>)\<rparr>"
    unfolding a59 using run play by (subst tick_last) simp_all
  finally have a60: "(tick ^^ 60) ?a =
      \<lparr>state = (state ?a)\<lparr>timeLeft := 0, status := Gameover\<rparr>,
       timerRunning = False, grid = Some ((state ?a)\<lparr>timeLeft := 1\<rparr>)\<rparr>" .
  show ?thesis
    using dec fin nonneg t60 play by (simp add: a59 a60)
qed

theorem tick_countdown_witness:
  "status (state (start draws0 initialApp)) = Playing \<and>
   2 \<le> timeLeft (state (start draws0 initialApp)) \<and>
   timeLeft (state (tick (start draws0 initialApp))) = 59 \<and>
   status (state (tick (start draws0 initialApp))) = Playing \<and>
   status (state ((tick ^^ 59) (start draws0 initialApp))) = Playing \<and>
   timeLeft (state ((tick ^^ 59) (start draws0 initialApp))) \<le> 1 \<and>
   timeLeft (state (tick ((tick ^^ 59) (start draws0 initialApp)))) = 0 \<and>
   status (state (tick ((tick ^^ 59) (start draws0 initialApp)))) = Gameover"
proof -
  have r1: "reachable (start draws0 initialApp)"
    by (intro reachable_start reachable_init)
  have r2: "reachable ((tick ^^ 59) (start draws0 initialApp))"
    by (intro reachable_ticks r1)
  show ?thesis
    using tick_countdown [OF r1, of draws0] tick_countdown [OF r2, of draws0]
    by (simp add: ticks0 started0 playing0_fields)
qed

section \<open>Selections\<close>

text \<open>
  C6. While playing, selecting the cell whose index is the round's \<open>diffIndex\<close> adds
  exactly 1 to the score and to the level, keeps the session playing, and replaces the
  round by the one generated for the new level; the new \<open>diffIndex\<close> is a cell of the new
  grid, that is, it lies in \<open>[0, gridSize * gridSize)\<close> for the new grid size. This holds
  in every reachable state: while playing, the grid on screen is the current render's.
\<close>

theorem select_correct:
  assumes "reachable app"
    and "status (state app) = Playing" and "index = diffIndex (state app)"
    and "validDraws rnd"
  shows "score (state (select rnd index app)) = score (state app) + 1 \<and>
         level (state (select rnd index app)) = level (state app) + 1 \<and>
         status (state (select rnd index app)) = Playing \<and>
         gridSize (state (select rnd index app))
           = gen_gridSize (generateColors rnd (level (state app) + 1)) \<and>
         baseColor (state (select rnd index app))
           = gen_baseColor (generateColors rnd (level (state app) + 1)) \<and>
         diffColor (state (select rnd index app))
           = gen_diffColor (generateColors rnd (level (state app) + 1)) \<and>
         diffIndex (state (select rnd index app))
           = gen_diffIndex (generateColors rnd (level (state app) + 1)) \<and>
         0 \<le> diffIndex (state (select rnd index app)) \<and>
         diffIndex (state (select rnd index app))
           < gridSize (state (select rnd index app)) * gridSize (state (select rnd index app))"
proof -
  let ?r = "generateColors rnd (level (state app) + 1)"
  from assms(2,3) have st: "state (select rnd index app) =
      nextLevel rnd (level (state app)) (score (state app)) (state app)"
    by (simp add: select_playing [OF assms(2) reachable_playing(2) [OF assms(1,2)]]
        handleBlockClick_def)
  have fields: "score (state (select rnd index app)) = score (state app) + 1"
    "level (state (select rnd index app)) = level (state app) + 1"
    "status (state (select rnd index app)) = Playing"
    "gridSize (state (select rnd index app)) = gen_gridSize ?r"
    "baseColor (state (select rnd index app)) = gen_baseColor ?r"
    "diffColor (state (select rnd index app)) = gen_diffColor ?r"
    "diffIndex (state (select rnd index app)) = gen_diffIndex ?r"
    using assms(2) by (simp_all add: st nextLevel_def Let_def)
  from generateColors_diffIndex [OF assms(4), of "level (state app) + 1"]
  have "0 \<le> gen_diffIndex ?r" and "gen_diffIndex ?r < gen_gridSize ?r * gen_gridSize ?r"
    by simp_all
  with fields show ?thesis by simp
qed

theorem select_correct_witness:
  "status (state (start draws0 initialApp)) = Playing \<and>
   2 = diffIndex (state (start draws0 initialApp)) \<and>
   validDraws draws0 \<and>
   score (state (select draws0 2 (start draws0 initialApp))) = 1 \<and>
   level (state (select draws0 2 (start draws0 initialApp))) = 2 \<and>
   status (state (select draws0 2 (start draws0 initialApp))) = Playing \<and>
   gridSize (state (select draws0 2 (start draws0 initialApp))) = 2 \<and>
   diffIndex (state (select draws0 2 (start draws0 initialApp))) = 2"
proof -
  have r: "reachable (start draws0 initialApp)"
    by (intro reachable_start reachable_init)
  have p: "status (state (start draws0 initialApp)) = Playing"
    and i: "2 = diffIndex (state (start draws0 initialApp))"
    by (simp_all add: started0 playing0_fields)
  have g: "generateColors draws0 2 = generateColors draws0 1"
    by (simp add: generateColors_def Let_def)
  show ?thesis
    using select_correct [OF r p i validDraws_draws0]
    by (simp add: started0 playing0_fields g generateColors_draws0_1 validDraws_draws0)
qed

text \<open>
  C7. While playing, selecting any other cell sets \<open>timeLeft\<close> to
  \<open>max 0 (timeLeft - 3)\<close> and changes nothing else: status, score, level, grid size, both
  colours, \<open>diffIndex\<close> and \<open>lastDiffInfo\<close> are the same, and so is the timer; the grid is
  drawn again from the new state. This holds in every reachable state.
\<close>

theorem select_incorrect:
  assumes "reachable app"
    and "status (state app) = Playing" and "index \<noteq> diffIndex (state app)"
  shows "select rnd index app =
           app\<lparr>state := (state app)\<lparr>timeLeft := max 0 (timeLeft (state app) - 3)\<rparr>,
               grid := Some ((state app)\<lparr>timeLeft := max 0 (timeLeft (state app) - 3)\<rparr>)\<rparr> \<and>
         timerRunning (select rnd index app) = timerRunning app \<and>
         timeLeft (state (select rnd index app)) = max 0 (timeLeft (state app) - 3) \<and>
         status (state (select rnd index app)) = status (state app) \<and>
         score (state (select rnd index app)) = score (state app) \<and>
         level (state (select rnd index app)) = level (state app) \<and>
         gridSize (state (select rnd index app)) = gridSize (state app) \<and>
         baseColor (state (select rnd index app)) = baseColor (state app) \<and>
         diffColor (state (select rnd index app)) = diffColor (state app) \<and>
         diffIndex (state (select rnd index app)) = diffIndex (state app) \<and>
         lastDiffInfo (state (select rnd index app)) = lastDiffInfo (state app)"
  using assms(2,3)
  by (simp add: select_playing [OF assms(2) reachable_playing(2) [OF assms(1,2)]]
      handleBlockClick_def)

theorem select_incorrect_witness:
  "status (state (start draws0 initialApp)) = Playing \<and>
   0 \<noteq> diffIndex (state (start draws0 initialApp)) \<and>
   timeLeft (state (select draws0 0 (start draws0 initialApp))) = 57 \<and>
   score (state (select draws0 0 (start draws0 initialApp))) = 0 \<and>
   level (state (select draws0 0 (start draws0 initialApp))) = 1 \<and>
   diffIndex (state (select draws0 0 (start draws0 initialApp))) = 2"
proof -
  have r: "reachable (start draws0 initialApp)"
    by (intro reachable_start reachable_init)
  have p: "status (state (start draws0 initialApp)) = Playing"
    and i: "0 \<noteq> diffIndex (state (start draws0 initialApp))"
    by (simp_all add: started0 playing0_fields)
  show ?thesis
    using select_incorrect [OF r p i, of draws0]
    by (simp add: started0 playing0_fields)
qed

section \<open>Starting a session\<close>

text \<open>
  C8. Whatever the state before, \<open>start\<close> gives score 0, 60 seconds, level 1, status
  playing, the round generated for level 1 and no \<open>lastDiffInfo\<close>. From idle and from
  ended the timer is scheduled, and the two transitions give the same result: nothing of
  the old session is left.
\<close>

theorem start_full_reset:
  "state (start rnd app) =
     \<lparr>status = Playing, score = 0, timeLeft = 60, level = 1,
      gridSize = gen_gridSize (generateColors rnd 1),
      baseColor = gen_baseColor (generateColors rnd 1),
      diffColor = gen_diffColor (generateColors rnd 1),
      diffIndex = gen_diffIndex (generateColors rnd 1),
      lastDiffInfo = None\<rparr> \<and>
   (status (state app) = Idle \<or> status (state app) = Gameover \<longrightarrow>
      timerRunning (start rnd app) \<and>
      (status (state app') = Idle \<or> status (state app') = Gameover \<longrightarrow>
         start rnd app' = start rnd app))"
  by (auto simp add: start_app startGame_def INITIAL_TIME_def Let_def)

theorem start_full_reset_witness:
  "status (state initialApp) = Idle \<and>
   status (state ((tick ^^ 60) (start draws0 initialApp))) = Gameover \<and>
   timerRunning (start draws0 initialApp) \<and>
   start draws0 ((tick ^^ 60) (start draws0 initialApp)) = start draws0 initialApp \<and>
   state (start draws0 initialApp) =
     \<lparr>status = Playing, score = 0, timeLeft = 60, level = 1, gridSize = 2,
      baseColor = \<lparr>h = 180, s = 60, l = 50\<rparr>, diffColor = \<lparr>h = 180, s = 60, l = 65\<rparr>,
      diffIndex = 2, lastDiffInfo = None\<rparr>"
  using start_full_reset [of draws0 initialApp "(tick ^^ 60) (start draws0 initialApp)"]
  by (simp add: started0 ended0 generateColors_draws0_1 playing0_fields)
    (simp add: playing0_def initialApp_def initialState_def)

section \<open>Commands outside a running session\<close>

text \<open>
  In a reachable state that is not playing, no interval is scheduled, so no tick arrives.
  Once the grid has left the screen, a selection is a call of the current render's handler,
  which returns at its status test. So from then on every event other than a start leaves
  the component as it is.
\<close>

lemma tick_not_playing:
  assumes "reachable app" and "status (state app) \<noteq> Playing"
  shows "tick app = app"
proof -
  from reachable_invariant [OF assms(1)] assms(2) have "\<not> timerRunning app"
    by simp
  then show ?thesis
    by (simp add: tick_def)
qed

lemma select_no_grid:
  assumes "status (state app) \<noteq> Playing" and "grid app = None"
  shows "select rnd index app = app"
  using assms by (simp add: select_def clickHandlerState_def handleBlockClick_def render_def)

lemma step_no_grid:
  assumes "reachable app" and "status (state app) \<noteq> Playing" and "grid app = None"
    and "\<not> isStart e"
  shows "step app e = app"
proof (cases e)
  case (Start rnd)
  with assms(4) show ?thesis by simp
next
  case (Select rnd index)
  with select_no_grid [OF assms(2,3)] show ?thesis by simp
next
  case Tick
  with tick_not_playing [OF assms(1,2)] show ?thesis by simp
next
  case ExitComplete
  with assms(3) show ?thesis by (simp add: exitComplete_def)
qed

lemma steps_no_grid:
  assumes "reachable app" and "status (state app) \<noteq> Playing" and "grid app = None"
  shows "\<forall>e \<in> set evs. \<not> isStart e \<Longrightarrow> foldl step app evs = app"
proof (induction evs)
  case Nil
  show ?case by simp
next
  case (Cons e evs)
  then have "step app e = app"
    using assms by (intro step_no_grid) simp_all
  with Cons show ?case by simp
qed

text \<open>
  While the grid of the last playing render is still on screen, its handlers pass the
  status test, because they read the state of that render, and their updaters change the
  stored state of the ended session.
\<close>

lemma select_leaving_grid:
  assumes "status (state app) \<noteq> Playing" and "grid app = Some st"
  shows "select rnd index app = app\<lparr>state := handleBlockClick rnd index st (state app)\<rparr>"
proof -
  have "status (handleBlockClick rnd index st (state app)) = status (state app)"
    by (simp add: handleBlockClick_def nextLevel_def Let_def)
  with assms show ?thesis
    by (simp add: select_def clickHandlerState_def render_def)
qed

text \<open>
  C9. A selection while the status is not playing is meant to change nothing, and
  \<open>handleBlockClick\<close> starts with a status test for that. The test reads the handler's
  own render, though. After a start and 60 ticks the session has ended with score 0 and
  level 1, and the grid of the last playing render is still on screen. Selecting its odd
  cell, index 2, leaves the status ended and stores score 1, level 2 and a
  \<open>lastDiffInfo\<close>: the ended session has changed.
\<close>

theorem select_after_gameover:
  "reachable ((tick ^^ 60) (start draws0 initialApp)) \<and>
   status (state ((tick ^^ 60) (start draws0 initialApp))) = Gameover \<and>
   timeLeft (state ((tick ^^ 60) (start draws0 initialApp))) = 0 \<and>
   score (state ((tick ^^ 60) (start draws0 initialApp))) = 0 \<and>
   level (state ((tick ^^ 60) (start draws0 initialApp))) = 1 \<and>
   lastDiffInfo (state ((tick ^^ 60) (start draws0 initialApp))) = None \<and>
   status (state (select draws0 2 ((tick ^^ 60) (start draws0 initialApp)))) = Gameover \<and>
   timeLeft (state (select draws0 2 ((tick ^^ 60) (start draws0 initialApp)))) = 0 \<and>
   score (state (select draws0 2 ((tick ^^ 60) (start draws0 initialApp)))) = 1 \<and>
   level (state (select draws0 2 ((tick ^^ 60) (start draws0 initialApp)))) = 2 \<and>
   lastDiffInfo (state (select draws0 2 ((tick ^^ 60) (start draws0 initialApp)))) =
     Some \<lparr>base = ''hsl(180, 60%, 50%)'', diff = ''hsl(180, 60%, 65%)'', delta = 15\<rparr> \<and>
   select draws0 2 ((tick ^^ 60) (start draws0 initialApp))
     \<noteq> (tick ^^ 60) (start draws0 initialApp)"
proof -
  have r: "reachable ((tick ^^ 60) (start draws0 initialApp))"
    by (intro reachable_ticks reachable_start reachable_init)
  have g: "generateColors draws0 2 = generateColors draws0 1"
    by (simp add: generateColors_def Let_def)
  have css: "colorToCSS \<lparr>h = 180, s = 60, l = 50\<rparr> = ''hsl(180, 60%, 50%)''"
    "colorToCSS \<lparr>h = 180, s = 60, l = 65\<rparr> = ''hsl(180, 60%, 65%)''"
    by (simp_all add: colorToCSS_def numberToString_def natToString.simps)
  have sel: "select draws0 2
        \<lparr>state = (playing0 0)\<lparr>status := Gameover\<rparr>, timerRunning = False,
         grid = Some (playing0 1)\<rparr> =
      \<lparr>state = handleBlockClick draws0 2 (playing0 1) ((playing0 0)\<lparr>status := Gameover\<rparr>),
       timerRunning = False, grid = Some (playing0 1)\<rparr>"
    by (subst select_leaving_grid [where st = "playing0 1"]) simp_all
  from r show ?thesis
    by (simp add: started0 ended0 sel)
      (simp add: handleBlockClick_def nextLevel_def playing0_def g generateColors_draws0_1 css)
qed

section \<open>Lightness of the odd colour\<close>

text \<open>
  C10. For every level \<open>L \<ge> 1\<close> and all draws in \<open>[0, 1)\<close>, the base lightness is an
  integer between 30 and 69, delta is at most 15, the odd colour's lightness is the base
  lightness plus or minus delta, and so it lies between 15 and 84: it never leaves
  \<open>[0, 100]\<close>, with no clamp in the code.
\<close>

theorem diffColor_lightness_range:
  assumes "1 \<le> L" and "validDraws rnd"
  shows "30 \<le> l (gen_baseColor (generateColors rnd L)) \<and>
         l (gen_baseColor (generateColors rnd L)) \<le> 69 \<and>
         gen_delta (generateColors rnd L) \<le> 15 \<and>
         (l (gen_diffColor (generateColors rnd L))
            = l (gen_baseColor (generateColors rnd L)) + gen_delta (generateColors rnd L) \<or>
          l (gen_diffColor (generateColors rnd L))
            = l (gen_baseColor (generateColors rnd L)) - gen_delta (generateColors rnd L)) \<and>
         15 \<le> l (gen_diffColor (generateColors rnd L)) \<and>
         l (gen_diffColor (generateColors rnd L)) \<le> 84"
proof -
  from assms(2) have r: "0 \<le> rnd_l rnd" "rnd_l rnd < 1"
    by (simp_all add: validDraws_def)
  have lo: "0 \<le> \<lfloor>rnd_l rnd * 40\<rfloor>" and hi: "\<lfloor>rnd_l rnd * 40\<rfloor> < 40"
    using floor_draw_range [OF r, of 40] by simp_all
  have base: "l (gen_baseColor (generateColors rnd L)) = \<lfloor>rnd_l rnd * 40\<rfloor> + 30"
    by (simp add: generateColors_def Let_def)
  have d: "1 \<le> gen_delta (generateColors rnd L)" "gen_delta (generateColors rnd L) \<le> 15"
    using assms(1) by (simp_all add: generateColors_def MIN_DELTA_def Let_def)
  have diff: "l (gen_diffColor (generateColors rnd L))
        = l (gen_baseColor (generateColors rnd L)) + gen_delta (generateColors rnd L) \<or>
      l (gen_diffColor (generateColors rnd L))
        = l (gen_baseColor (generateColors rnd L)) - gen_delta (generateColors rnd L)"
    by (simp add: generateColors_def Let_def)
  from lo hi base d diff show ?thesis
    by linarith
qed

theorem diffColor_lightness_range_witness:
  "(1::int) \<le> 1 \<and> validDraws draws0 \<and>
   l (gen_baseColor (generateColors draws0 1)) = 50 \<and>
   gen_delta (generateColors draws0 1) = 15 \<and>
   l (gen_diffColor (generateColors draws0 1)) = 65 \<and>
   15 \<le> l (gen_diffColor (generateColors draws0 1)) \<and>
   l (gen_diffColor (generateColors draws0 1)) \<le> 84"
proof -
  have L: "(1::int) \<le> 1"
    by simp
  from diffColor_lightness_range [OF L validDraws_draws0] show ?thesis
    by (simp add: generateColors_draws0_1 validDraws_draws0)
qed

section \<open>Time never negative; where the session ends\<close>

text \<open>
  C5 (as amended). In every reachable state \<open>timeLeft\<close> is at least 0. A tick that finds at
  most 1 second sets \<open>timeLeft\<close> to 0 and the status to ended in the same update. A wrong
  selection that finds at most 3 seconds sets \<open>timeLeft\<close> to 0 and leaves the status
  playing: \<open>handleBlockClick\<close> never touches the status, and the session ends at the next
  tick, with \<open>timeLeft\<close> still 0.
\<close>

theorem timeLeft_nonneg_clamp:
  assumes "reachable app"
  shows "0 \<le> timeLeft (state app) \<and>
         (status (state app) = Playing \<and> timeLeft (state app) \<le> 1 \<longrightarrow>
            timeLeft (state (tick app)) = 0 \<and> status (state (tick app)) = Gameover) \<and>
         (status (state app) = Playing \<and> index \<noteq> diffIndex (state app) \<and>
          timeLeft (state app) \<le> 3 \<longrightarrow>
            timeLeft (state (select rnd index app)) = 0 \<and>
            status (state (select rnd index app)) = Playing \<and>
            timeLeft (state (tick (select rnd index app))) = 0 \<and>
            status (state (tick (select rnd index app))) = Gameover)"
proof -
  from reachable_invariant [OF assms]
  have run: "timerRunning app = (status (state app) = Playing)"
    and nonneg: "0 \<le> timeLeft (state app)"
    by simp_all
  have byTick: "timeLeft (state (tick app)) = 0 \<and> status (state (tick app)) = Gameover"
    if "status (state app) = Playing" "timeLeft (state app) \<le> 1"
    using that run by (simp add: tick_last)
  have bySelect: "timeLeft (state (select rnd index app)) = 0 \<and>
      status (state (select rnd index app)) = Playing \<and>
      timeLeft (state (tick (select rnd index app))) = 0 \<and>
      status (state (tick (select rnd index app))) = Gameover"
    if "status (state app) = Playing" "index \<noteq> diffIndex (state app)"
      "timeLeft (state app) \<le> 3"
  proof -
    let ?a = "select rnd index app"
    from that have sel: "?a =
        app\<lparr>state := (state app)\<lparr>timeLeft := 0\<rparr>, grid := Some ((state app)\<lparr>timeLeft := 0\<rparr>)\<rparr>"
      by (simp add: select_playing [OF that(1) reachable_playing(2) [OF assms that(1)]]
          handleBlockClick_def)
    with that(1) run have "timerRunning ?a" "status (state ?a) = Playing"
      "timeLeft (state ?a) \<le> 1"
      by simp_all
    from tick_last [OF this] sel that(1) show ?thesis
      by simp
  qed
  from nonneg byTick bySelect show ?thesis
    by blast
qed

theorem timeLeft_nonneg_clamp_witness:
  "status (state ((tick ^^ 59) (start draws0 initialApp))) = Playing \<and>
   timeLeft (state ((tick ^^ 59) (start draws0 initialApp))) \<le> 1 \<and>
   timeLeft (state (tick ((tick ^^ 59) (start draws0 initialApp)))) = 0 \<and>
   status (state (tick ((tick ^^ 59) (start draws0 initialApp)))) = Gameover \<and>
   status (state ((tick ^^ 58) (start draws0 initialApp))) = Playing \<and>
   0 \<noteq> diffIndex (state ((tick ^^ 58) (start draws0 initialApp))) \<and>
   timeLeft (state ((tick ^^ 58) (start draws0 initialApp))) \<le> 3 \<and>
   timeLeft (state (select draws0 0 ((tick ^^ 58) (start draws0 initialApp)))) = 0 \<and>
   status (state (select draws0 0 ((tick ^^ 58) (start draws0 initialApp)))) = Playing \<and>
   status (state (tick (select draws0 0 ((tick ^^ 58) (start draws0 initialApp))))) = Gameover"
proof -
  have r1: "reachable ((tick ^^ 59) (start draws0 initialApp))"
    and r2: "reachable ((tick ^^ 58) (start draws0 initialApp))"
    by (intro reachable_ticks reachable_start reachable_init)+
  have h1: "status (state ((tick ^^ 59) (start draws0 initialApp))) = Playing \<and>
      timeLeft (state ((tick ^^ 59) (start draws0 initialApp))) \<le> 1"
    and h2: "status (state ((tick ^^ 58) (start draws0 initialApp))) = Playing \<and>
      0 \<noteq> diffIndex (state ((tick ^^ 58) (start draws0 initialApp))) \<and>
      timeLeft (state ((tick ^^ 58) (start draws0 initialApp))) \<le> 3"
    by (simp_all add: started0 ticks0 playing0_fields)
  from timeLeft_nonneg_clamp [OF r1, of 0 draws0] timeLeft_nonneg_clamp [OF r2, of 0 draws0] h1 h2
  show ?thesis
    by blast
qed

text \<open>
  The claim as written fails. After a start and 58 ticks there are 2 seconds left; a
  wrong selection then leaves 0 seconds, and the session is still playing, not ended.
\<close>

theorem penalty_clamp_counterexample:
  "reachable ((tick ^^ 58) (start draws0 initialApp)) \<and>
   status (state ((tick ^^ 58) (start draws0 initialApp))) = Playing \<and>
   timeLeft (state ((tick ^^ 58) (start draws0 initialApp))) = 2 \<and>
   0 \<noteq> diffIndex (state ((tick ^^ 58) (start draws0 initialApp))) \<and>
   timeLeft (state (select draws0 0 ((tick ^^ 58) (start draws0 initialApp)))) = 0 \<and>
   status (state (select draws0 0 ((tick ^^ 58) (start draws0 initialApp)))) \<noteq> Gameover"
proof -
  have "reachable ((tick ^^ 58) (start draws0 initialApp))"
    by (intro reachable_ticks reachable_start reachable_init)
  then show ?thesis
    by (simp add: started0 ticks0 select_shown handleBlockClick_def playing0_fields)
qed

section \<open>The summary of the last comparison\<close>

text \<open>What \<open>nextLevel\<close> stores, for every state and every draw.\<close>

lemma nextLevel_lastDiffInfo:
  "lastDiffInfo (nextLevel rnd (level prev) (score prev) prev) =
     Some \<lparr>base = colorToCSS (baseColor prev), diff = colorToCSS (diffColor prev),
           delta = max 1 (15 - (level prev + 1) div 4)\<rparr>"
  by (simp add: nextLevel_def generateColors_def MIN_DELTA_def Let_def)

text \<open>The other transitions: a wrong selection and a tick keep it, a start removes it.\<close>

lemma lastDiffInfo_kept:
  "index \<noteq> diffIndex st \<Longrightarrow>
     lastDiffInfo (handleBlockClick rnd index st prev) = lastDiffInfo prev"
  "lastDiffInfo (intervalUpdate st) = lastDiffInfo st"
  "lastDiffInfo (startGame rnd) = None"
  by (simp_all add: handleBlockClick_def intervalUpdate_def startGame_def Let_def)

lemma colorToCSS_examples:
  "colorToCSS \<lparr>h = 180, s = 60, l = 50\<rparr> = ''hsl(180, 60%, 50%)''"
  "colorToCSS \<lparr>h = 180, s = 60, l = 65\<rparr> = ''hsl(180, 60%, 65%)''"
  by (simp_all add: colorToCSS_def numberToString_def natToString.simps)

lemma generateColors_draws0_3:
  "generateColors draws0 3 =
     \<lparr>gen_baseColor = \<lparr>h = 180, s = 60, l = 50\<rparr>, gen_diffColor = \<lparr>h = 180, s = 60, l = 65\<rparr>,
      gen_diffIndex = 4, gen_gridSize = 3, gen_delta = 15\<rparr>"
  by (simp add: generateColors_def draws0_def MIN_DELTA_def Let_def)

lemma generateColors_draws0_4:
  "generateColors draws0 4 =
     \<lparr>gen_baseColor = \<lparr>h = 180, s = 60, l = 50\<rparr>, gen_diffColor = \<lparr>h = 180, s = 60, l = 64\<rparr>,
      gen_diffIndex = 4, gen_gridSize = 3, gen_delta = 14\<rparr>"
  by (simp add: generateColors_def draws0_def MIN_DELTA_def Let_def)

lemma level3_0:
  "select draws0 2 (select draws0 2 (start draws0 initialApp)) =
     \<lparr>state = \<lparr>status = Playing, score = 2, timeLeft = 60, level = 3, gridSize = 3,
        baseColor = \<lparr>h = 180, s = 60, l = 50\<rparr>, diffColor = \<lparr>h = 180, s = 60, l = 65\<rparr>,
        diffIndex = 4,
        lastDiffInfo = Some \<lparr>base = ''hsl(180, 60%, 50%)'', diff = ''hsl(180, 60%, 65%)'',
                              delta = 15\<rparr>\<rparr>,
      timerRunning = True,
      grid = Some \<lparr>status = Playing, score = 2, timeLeft = 60, level = 3, gridSize = 3,
        baseColor = \<lparr>h = 180, s = 60, l = 50\<rparr>, diffColor = \<lparr>h = 180, s = 60, l = 65\<rparr>,
        diffIndex = 4,
        lastDiffInfo = Some \<lparr>base = ''hsl(180, 60%, 50%)'', diff = ''hsl(180, 60%, 65%)'',
                              delta = 15\<rparr>\<rparr>\<rparr>"
proof -
  have g: "generateColors draws0 2 = generateColors draws0 1"
    by (simp add: generateColors_def Let_def)
  have one: "select draws0 2 (start draws0 initialApp) =
      \<lparr>state = handleBlockClick draws0 2 (playing0 60) (playing0 60), timerRunning = True,
       grid = Some (handleBlockClick draws0 2 (playing0 60) (playing0 60))\<rparr>"
    by (simp add: started0 select_shown playing0_fields)
  have st: "handleBlockClick draws0 2 (playing0 60) (playing0 60) =
      \<lparr>status = Playing, score = 1, timeLeft = 60, level = 2, gridSize = 2,
        baseColor = \<lparr>h = 180, s = 60, l = 50\<rparr>, diffColor = \<lparr>h = 180, s = 60, l = 65\<rparr>,
        diffIndex = 2,
        lastDiffInfo = Some \<lparr>base = ''hsl(180, 60%, 50%)'', diff = ''hsl(180, 60%, 65%)'',
                              delta = 15\<rparr>\<rparr>"
    by (simp add: handleBlockClick_def nextLevel_def playing0_def g generateColors_draws0_1
        colorToCSS_examples)
  show ?thesis
    unfolding one st
    by (simp add: select_shown)
      (simp add: handleBlockClick_def nextLevel_def generateColors_draws0_3
        colorToCSS_examples)
qed

text \<open>
  C4. A correct selection stores the CSS texts of the previous round's two colours in
  \<open>lastDiffInfo\<close>, together with a delta. The end screen shows the two colours and says
  that delta is the lightness difference between them. The stored delta is, however, the
  one of the round just generated for the next level. At level 3 with the draws
  \<open>draws0\<close> the round shows lightness 50 against 65, a difference of 15; after the correct
  selection of cell 4 the summary holds these two colours and delta 14, the delta of
  level 4.
\<close>

theorem nextLevel_lastDiffInfo_delta:
  "status (state (select draws0 2 (select draws0 2 (start draws0 initialApp)))) = Playing \<and>
   level (state (select draws0 2 (select draws0 2 (start draws0 initialApp)))) = 3 \<and>
   diffIndex (state (select draws0 2 (select draws0 2 (start draws0 initialApp)))) = 4 \<and>
   l (diffColor (state (select draws0 2 (select draws0 2 (start draws0 initialApp)))))
     - l (baseColor (state (select draws0 2 (select draws0 2 (start draws0 initialApp))))) = 15 \<and>
   gen_delta (generateColors draws0 3) = 15 \<and>
   lastDiffInfo (state (select draws0 4
       (select draws0 2 (select draws0 2 (start draws0 initialApp))))) =
     Some \<lparr>base = ''hsl(180, 60%, 50%)'', diff = ''hsl(180, 60%, 65%)'', delta = 14\<rparr>"
  by (simp add: level3_0)
    (simp add: select_shown handleBlockClick_def nextLevel_def
      generateColors_draws0_4 colorToCSS_examples generateColors_def MIN_DELTA_def Let_def)

end
